theory Spec2Isabelle
  imports Main
begin

unbundle bit_operations_syntax

section \<open>Python values, exceptions and results\<close>

text \<open>
  The module \<^verbatim>\<open>omero_basics.py\<close> is Python 2. The values it handles are modelled by
  \<open>pyval\<close>: \<^verbatim>\<open>None\<close>, integers (unbounded) and byte strings. A call either returns,
  raises an exception that the caller may catch, or leaves the process through
  \<^verbatim>\<open>sys.exit(n)\<close>.
\<close>

datatype pyval = PNone | PInt int | PStr string

datatype exn =
    ValueError
  | CsvError
  | IOError
  | ParsingError
  | NoSectionError
  | NoOptionError
  | OSError
  | AttributeError
  | QueryError

datatype 'a result = Return 'a | Raise exn | Exit int

section \<open>Well labels\<close>

text \<open>
  \<^verbatim>\<open>'%i' % n\<close> prints an integer in decimal, with a minus sign when it is negative.
\<close>

definition digit_char :: "nat \<Rightarrow> char" where
  "digit_char d = char_of (48 + d)"

function str_nat :: "nat \<Rightarrow> string" where
  "str_nat n =
     (if n < 10 then [digit_char n]
      else str_nat (n div 10) @ [digit_char (n mod 10)])"
  by pat_completeness auto
termination
  by (relation "measure id") auto

declare str_nat.simps [simp del]

definition str_int :: "int \<Rightarrow> string" where
  "str_int i = (if i < 0 then CHR ''-'' # str_nat (nat (- i)) else str_nat (nat i))"

text \<open>
  \<^verbatim>\<open>chr(i)\<close> of Python 2 is the byte \<open>i\<close> for \<open>0 \<le> i < 256\<close> and raises
  \<^verbatim>\<open>ValueError\<close> otherwise.
\<close>

definition chr :: "int \<Rightarrow> char result" where
  "chr i = (if 0 \<le> i \<and> i < 256 then Return (char_of i) else Raise ValueError)"

text \<open>
  \<^verbatim>\<open>return '%s%i' % (chr(65 + int(row)), column + 1)\<close>, on integer arguments
  (where \<^verbatim>\<open>int(row)\<close> is \<open>row\<close>).
\<close>

definition well_from_row_col :: "int \<Rightarrow> int \<Rightarrow> string result" where
  "well_from_row_col row column =
     (case chr (65 + row) of
        Return c \<Rightarrow> Return (c # str_int (column + 1))
      | Raise e \<Rightarrow> Raise e
      | Exit n \<Rightarrow> Exit n)"

text \<open>The value of a string of decimal digits, to read a printed number back.\<close>

definition digit_val :: "char \<Rightarrow> nat" where
  "digit_val c = of_char c - 48"

definition dec_val :: "string \<Rightarrow> nat" where
  "dec_val s = foldl (\<lambda>a c. 10 * a + digit_val c) 0 s"

section \<open>The process and its surroundings\<close>

text \<open>
  The file system maps a path to a file node: whether it is a regular file, its
  \<^verbatim>\<open>st_mode\<close> and its bytes. Every file-system call the module makes is appended to
  \<open>fs_log\<close>, so that "this file was not touched" is a statement about the log.
  Connection handles are objects; the manager holds a reference, an index into
  \<open>gateways\<close>, and \<open>next_ref\<close> is the next unused reference.
\<close>

record inode =
  is_regular :: bool
  st_mode :: nat
  content :: string

datatype fs_op = Exists string | IsFile string | Stat string | ReadFile string | OpenWrite string

datatype gw_state = Created | Connected | Refused | Closed bool

record gateway =
  gw_username :: pyval
  gw_passwd :: pyval
  gw_host :: pyval
  gw_port :: pyval
  gw_sUuid :: pyval
  omero_group :: pyval
  gw_state :: gw_state

record world =
  files :: "string \<rightharpoonup> inode"
  fs_log :: "fs_op list"
  stderr :: string
  gateways :: "nat \<Rightarrow> gateway"
  next_ref :: nat

text \<open>A cell of a projection result is \<^verbatim>\<open>None\<close> or a typed wrapper with a \<^verbatim>\<open>val\<close>.\<close>

datatype rtype = RType (val: pyval)

type_synonym cell = "rtype option"

type_synonym params = "(string \<times> pyval) list"

type_synonym ini = "(string \<times> (string \<times> string) list) list"

text \<open>
  The libraries the module calls are parameters of the model:
  \<^item> \<open>get_current\<close>: the tuple \<^verbatim>\<open>SessionsStore().get_current()\<close> returns;
  \<^item> \<open>expanduser\<close>: \<^verbatim>\<open>os.path.expanduser\<close>;
  \<^item> \<open>config_parse\<close>: what \<^verbatim>\<open>RawConfigParser\<close> makes of a file's bytes, a parse
    error or the sections with their options;
  \<^item> \<open>int_of_str\<close>: \<^verbatim>\<open>int(s)\<close>, with \<open>None\<close> for \<^verbatim>\<open>ValueError\<close>;
  \<^item> \<open>blitz_connect\<close>: whether \<^verbatim>\<open>BlitzGateway.connect\<close> reports success for a
    gateway built from the given credentials;
  \<^item> \<open>projection\<close>: the query service's answer to a query on a gateway;
  \<^item> \<open>may_open_read\<close>, \<open>may_open_write\<close>: whether the operating system lets the
    process open a path for reading, for writing, in a given file system (permissions,
    ownership, the directory the path lies in);
  \<^item> \<open>create_mode\<close>: the mode a newly created file gets.
\<close>

record env =
  get_current :: "pyval \<times> pyval \<times> pyval \<times> pyval"
  expanduser :: "string \<Rightarrow> string"
  config_parse :: "string \<Rightarrow> exn + ini"
  int_of_str :: "string \<Rightarrow> int option"
  blitz_connect :: "gateway \<Rightarrow> bool"
  projection :: "gateway \<Rightarrow> string \<Rightarrow> params \<Rightarrow> exn + cell list list"
  may_open_read :: "(string \<rightharpoonup> inode) \<Rightarrow> string \<Rightarrow> bool"
  may_open_write :: "(string \<rightharpoonup> inode) \<Rightarrow> string \<Rightarrow> bool"
  create_mode :: nat

definition log_op :: "fs_op \<Rightarrow> world \<Rightarrow> world" where
  "log_op operation w = w\<lparr>fs_log := fs_log w @ [operation]\<rparr>"

definition write_stderr :: "string \<Rightarrow> world \<Rightarrow> world" where
  "write_stderr s w = w\<lparr>stderr := stderr w @ s\<rparr>"

definition os_path_exists :: "string \<Rightarrow> world \<Rightarrow> bool \<times> world" where
  "os_path_exists p w = (files w p \<noteq> None, log_op (Exists p) w)"

definition os_path_isfile :: "string \<Rightarrow> world \<Rightarrow> bool \<times> world" where
  "os_path_isfile p w =
     ((case files w p of None \<Rightarrow> False | Some f \<Rightarrow> is_regular f), log_op (IsFile p) w)"

definition os_stat_mode :: "string \<Rightarrow> world \<Rightarrow> nat result \<times> world" where
  "os_stat_mode p w =
     ((case files w p of None \<Rightarrow> Raise OSError | Some f \<Rightarrow> Return (st_mode f)),
      log_op (Stat p) w)"

section \<open>The connection manager\<close>

record manager =
  conn :: "nat option"
  SUUID :: pyval
  HOST :: pyval
  PORT :: pyval
  USERNAME :: pyval
  PASSWORD :: pyval

definition new_manager :: manager where
  "new_manager =
     \<lparr>conn = None, SUUID = PNone, HOST = PNone, PORT = PNone, USERNAME = PNone,
      PASSWORD = PNone\<rparr>"

text \<open>
  \<^verbatim>\<open>if config_file is None:\<close> take the four session properties from the session
  store.
\<close>

definition session_step :: "env \<Rightarrow> string option \<Rightarrow> manager \<Rightarrow> manager" where
  "session_step e config_file m =
     (case config_file of
        None \<Rightarrow>
          (case get_current e of
             (h, u, s, p) \<Rightarrow> m\<lparr>HOST := h, USERNAME := u, SUUID := s, PORT := p\<rparr>)
      | Some _ \<Rightarrow> m)"

text \<open>\<^verbatim>\<open>config.get(section, option)\<close> and \<^verbatim>\<open>config.getint(section, option)\<close>.\<close>

definition config_get :: "ini \<Rightarrow> string \<Rightarrow> string \<Rightarrow> string result" where
  "config_get cfg sec opt =
     (case map_of cfg sec of
        None \<Rightarrow> Raise NoSectionError
      | Some items \<Rightarrow>
          (case map_of items opt of None \<Rightarrow> Raise NoOptionError | Some v \<Rightarrow> Return v))"

definition config_getint :: "env \<Rightarrow> ini \<Rightarrow> string \<Rightarrow> string \<Rightarrow> int result" where
  "config_getint e cfg sec opt =
     (case config_get cfg sec opt of
        Return v \<Rightarrow> (case int_of_str e v of None \<Rightarrow> Raise ValueError | Some i \<Rightarrow> Return i)
      | Raise x \<Rightarrow> Raise x
      | Exit n \<Rightarrow> Exit n)"

text \<open>
  \<^verbatim>\<open>config.read(config_file)\<close>: a file that cannot be opened (it is absent, or the
  operating system refuses the read) is skipped and leaves the configuration empty, so
  that the first \<^verbatim>\<open>config.get\<close> raises; a file that does not parse raises.
\<close>

definition config_read :: "env \<Rightarrow> string \<Rightarrow> world \<Rightarrow> ini result \<times> world" where
  "config_read e p w =
     ((case files w p of
         None \<Rightarrow> Return []
       | Some f \<Rightarrow>
           if \<not> may_open_read e (files w) p then Return []
           else (case config_parse e (content f) of Inl x \<Rightarrow> Raise x | Inr c \<Rightarrow> Return c)),
      log_op (ReadFile p) w)"

text \<open>Lines 58 to 64: read the credentials file and fill the four fields in order.\<close>

definition read_credentials ::
  "env \<Rightarrow> string \<Rightarrow> manager \<Rightarrow> world \<Rightarrow> manager result \<times> world" where
  "read_credentials e p m w =
     (case config_read e p w of
        (Raise x, w1) \<Rightarrow> (Raise x, w1)
      | (Exit n, w1) \<Rightarrow> (Exit n, w1)
      | (Return cfg, w1) \<Rightarrow>
          (case config_get cfg ''OMEROCredentials'' ''host'' of
             Raise x \<Rightarrow> (Raise x, w1)
           | Exit n \<Rightarrow> (Exit n, w1)
           | Return h \<Rightarrow>
               (case config_getint e cfg ''OMEROCredentials'' ''port'' of
                  Raise x \<Rightarrow> (Raise x, w1)
                | Exit n \<Rightarrow> (Exit n, w1)
                | Return p \<Rightarrow>
                    (case config_get cfg ''OMEROCredentials'' ''username'' of
                       Raise x \<Rightarrow> (Raise x, w1)
                     | Exit n \<Rightarrow> (Exit n, w1)
                     | Return u \<Rightarrow>
                         (case config_get cfg ''OMEROCredentials'' ''password'' of
                            Raise x \<Rightarrow> (Raise x, w1)
                          | Exit n \<Rightarrow> (Exit n, w1)
                          | Return pw \<Rightarrow>
                              (Return (m\<lparr>HOST := PStr h, PORT := PInt p,
                                  USERNAME := PStr u, PASSWORD := PStr pw\<rparr>), w1))))))"

definition missing_message :: "string \<Rightarrow> string" where
  "missing_message p =
     ''No active OMERO CLI session and configuration file '' @ p @ '' does not exist''
       @ [CHR 0x0A]"

definition permission_message :: "string \<Rightarrow> string" where
  "permission_message p =
     ''Configuration file contains private credentials and must not be accessible by ''
       @ ''other users. Please run:'' @ [CHR 0x0A, CHR 0x0A]
       @ ''    chmod 600 '' @ p @ [CHR 0x0A, CHR 0x0A]"

text \<open>
  \<^verbatim>\<open>os.path.exists(config_file) and os.path.isfile(config_file)\<close>: the second call is
  made only when the first is true.
\<close>

definition exists_and_isfile :: "string \<Rightarrow> world \<Rightarrow> bool \<times> world" where
  "exists_and_isfile p w =
     (case os_path_exists p w of
        (True, w1) \<Rightarrow> os_path_isfile p w1
      | (False, w1) \<Rightarrow> (False, w1))"

text \<open>
  Lines 37 to 64: the branch that reads the configuration file at the given path. The
  octal mask \<^verbatim>\<open>0077\<close> is 63.
\<close>

definition from_config_file ::
  "env \<Rightarrow> string \<Rightarrow> manager \<Rightarrow> world \<Rightarrow> manager result \<times> world" where
  "from_config_file e p m w =
     (case exists_and_isfile p w of
        (False, w1) \<Rightarrow> (Exit 1, write_stderr (missing_message p) w1)
      | (True, w1) \<Rightarrow>
          (case os_stat_mode p w1 of
             (Raise x, w2) \<Rightarrow> (Raise x, w2)
           | (Exit n, w2) \<Rightarrow> (Exit n, w2)
           | (Return mode, w2) \<Rightarrow>
               if mode AND 63 \<noteq> 0
               then (Exit 1, write_stderr (permission_message p) w2)
               else read_credentials e p m w2))"

text \<open>\<^verbatim>\<open>OMEROConnectionManager.__init__(self, config_file=None)\<close>.\<close>

definition init :: "env \<Rightarrow> string option \<Rightarrow> world \<Rightarrow> manager result \<times> world" where
  "init e config_file w =
     (let m = session_step e config_file new_manager
      in if config_file \<noteq> None \<or> SUUID m = PNone
         then from_config_file e
                (expanduser e (case config_file of None \<Rightarrow> ''~/.omero/config'' | Some p \<Rightarrow> p))
                m w
         else (Return m, w))"

text \<open>
  \<^verbatim>\<open>connect(self)\<close>. The new gateway object gets the four constructor arguments;
  \<^verbatim>\<open>self.conn\<close> is assigned before \<^verbatim>\<open>self.conn.connect(sUuid=self.SUUID)\<close> is
  called, so it stays assigned when the call reports failure and the process exits.
\<close>

definition connect_message :: string where
  "connect_message =
     ''Error: Connection not available, please check your user name and password.''
       @ [CHR 0x0A]"

definition BlitzGateway :: "pyval \<Rightarrow> pyval \<Rightarrow> pyval \<Rightarrow> pyval \<Rightarrow> gateway" where
  "BlitzGateway username passwd host port =
     \<lparr>gw_username = username, gw_passwd = passwd, gw_host = host, gw_port = port,
      gw_sUuid = PNone, omero_group = PNone, gw_state = Created\<rparr>"

definition gateway_connect :: "env \<Rightarrow> pyval \<Rightarrow> gateway \<Rightarrow> bool \<times> gateway" where
  "gateway_connect e sUuid g =
     (let g1 = g\<lparr>gw_sUuid := sUuid\<rparr>
      in if blitz_connect e g1 then (True, g1\<lparr>gw_state := Connected\<rparr>)
         else (False, g1\<lparr>gw_state := Refused\<rparr>))"

definition connect :: "env \<Rightarrow> manager \<Rightarrow> world \<Rightarrow> nat result \<times> manager \<times> world" where
  "connect e m w =
     (case conn m of
        Some h \<Rightarrow> (Return h, m, w)
      | None \<Rightarrow>
          (let h = next_ref w;
               m1 = m\<lparr>conn := Some h\<rparr>;
               (connected, g) =
                 gateway_connect e (SUUID m)
                   (BlitzGateway (USERNAME m) (PASSWORD m) (HOST m) (PORT m));
               w1 = w\<lparr>gateways := (gateways w)(h := g), next_ref := Suc h\<rparr>
           in if \<not> connected then (Exit 1, m1, write_stderr connect_message w1)
              else (Return h, m1, w1)))"

text \<open>\<^verbatim>\<open>disconnect(self)\<close>; a gateway object is always true in \<^verbatim>\<open>if self.conn:\<close>.\<close>

definition seppuku :: "bool \<Rightarrow> gateway \<Rightarrow> gateway" where
  "seppuku softclose g = g\<lparr>gw_state := Closed softclose\<rparr>"

definition disconnect :: "manager \<Rightarrow> world \<Rightarrow> manager \<times> world" where
  "disconnect m w =
     (case conn m of
        None \<Rightarrow> (m, w)
      | Some h \<Rightarrow>
          (m\<lparr>conn := None\<rparr>,
           w\<lparr>gateways := (gateways w)(h := seppuku True (gateways w h))\<rparr>))"

text \<open>The two loops of \<^verbatim>\<open>hql_query\<close> that unwrap the result, with their accumulators.\<close>

fun unwrap_row :: "pyval list \<Rightarrow> cell list \<Rightarrow> pyval list" where
  "unwrap_row unwrapped_row [] = unwrapped_row"
| "unwrap_row unwrapped_row (column # columns) =
     (case column of
        None \<Rightarrow> unwrap_row (unwrapped_row @ [PNone]) columns
      | Some r \<Rightarrow> unwrap_row (unwrapped_row @ [val r]) columns)"

fun unwrap_rows :: "pyval list list \<Rightarrow> cell list list \<Rightarrow> pyval list list" where
  "unwrap_rows unwrapped_rows [] = unwrapped_rows"
| "unwrap_rows unwrapped_rows (row # rows) =
     unwrap_rows (unwrapped_rows @ [unwrap_row [] row]) rows"

text \<open>
  \<^verbatim>\<open>hql_query(self, query, params=None)\<close>. \<^verbatim>\<open>ParametersI()\<close> is the empty
  parameter set. The value \<^verbatim>\<open>self.connect()\<close> returns is dropped and the handle is read
  from \<^verbatim>\<open>self.conn\<close> again; were it \<^verbatim>\<open>None\<close> there, the attribute access would
  raise. The group is set on the gateway object itself, before the query runs.
\<close>

definition setOmeroGroup :: "int \<Rightarrow> gateway \<Rightarrow> gateway" where
  "setOmeroGroup n g = g\<lparr>omero_group := PInt n\<rparr>"

definition hql_query ::
  "env \<Rightarrow> manager \<Rightarrow> string \<Rightarrow> params option \<Rightarrow> world
     \<Rightarrow> pyval list list result \<times> manager \<times> world" where
  "hql_query e m query params w =
     (case (if conn m = None then connect e m w else (Return 0, m, w)) of
        (Raise x, m1, w1) \<Rightarrow> (Raise x, m1, w1)
      | (Exit n, m1, w1) \<Rightarrow> (Exit n, m1, w1)
      | (Return _, m1, w1) \<Rightarrow>
          (case conn m1 of
             None \<Rightarrow> (Raise AttributeError, m1, w1)
           | Some h \<Rightarrow>
               (let ps = (case params of None \<Rightarrow> [] | Some given \<Rightarrow> given);
                    w2 = w1\<lparr>gateways := (gateways w1)(h := setOmeroGroup (- 1) (gateways w1 h))\<rparr>
                in case projection e (gateways w2 h) query ps of
                     Inl x \<Rightarrow> (Raise x, m1, w2)
                   | Inr rows \<Rightarrow> (Return (unwrap_rows [] rows), m1, w2))))"

text \<open>\<^verbatim>\<open>__del__(self)\<close>.\<close>

definition del_manager :: "manager \<Rightarrow> world \<Rightarrow> manager \<times> world" where
  "del_manager m w = disconnect m w"

section \<open>Writing a delimited file\<close>

text \<open>
  \<^verbatim>\<open>csv.writer(csvfile, quoting=QUOTE_NONE)\<close> in the default dialect: the delimiter is
  a comma, the quote character a double quote, the line terminator CR LF, and no escape
  character is set. A string field is written as its bytes up to the first NUL,
  \<^verbatim>\<open>None\<close> as the empty field, an integer through \<^verbatim>\<open>str\<close>. With no quoting and no
  escape character the writer refuses a field that holds the delimiter, the quote
  character or a character of the line terminator, and a row that is one empty field.
\<close>

definition field_text :: "pyval \<Rightarrow> string" where
  "field_text v =
     (case v of
        PStr s \<Rightarrow> takeWhile (\<lambda>c. c \<noteq> CHR 0x00) s
      | PNone \<Rightarrow> []
      | PInt i \<Rightarrow> str_int i)"

definition needs_escape :: "char \<Rightarrow> bool" where
  "needs_escape c =
     (c = CHR '','' \<or> c = CHR 0x22 \<or> c = CHR 0x0D \<or> c = CHR 0x0A)"

fun join_append :: "bool \<Rightarrow> nat \<Rightarrow> string \<Rightarrow> pyval list \<Rightarrow> exn + string" where
  "join_append quote_empty num_fields rec [] = Inr rec"
| "join_append quote_empty num_fields rec (field # flds) =
     (let t = field_text field
      in if list_ex needs_escape t then Inl CsvError
         else if t = [] \<and> quote_empty then Inl CsvError
         else join_append quote_empty (Suc num_fields)
                (rec @ (if 0 < num_fields then '','' else []) @ t) flds)"

definition csv_record :: "pyval list \<Rightarrow> exn + string" where
  "csv_record flds =
     (case join_append (length flds = 1) 0 [] flds of
        Inl x \<Rightarrow> Inl x
      | Inr rec \<Rightarrow> Inr (rec @ [CHR 0x0D, CHR 0x0A]))"

text \<open>
  \<^verbatim>\<open>open(filename, 'wb')\<close> raises \<^verbatim>\<open>IOError\<close> when the name is empty, when the
  operating system refuses the open (a missing directory, a file or directory the
  process may not write), or when the path is a directory (a node that is not a regular
  file); otherwise it creates the file or empties the existing one.
\<close>

definition open_wb :: "env \<Rightarrow> string \<Rightarrow> world \<Rightarrow> unit result \<times> world" where
  "open_wb e p w =
     (if p = [] \<or> \<not> may_open_write e (files w) p
      then (Raise IOError, log_op (OpenWrite p) w)
      else
        (case files w p of
           None \<Rightarrow>
             (Return (),
              log_op (OpenWrite p)
                (w\<lparr>files := (files w)(p \<mapsto>
                     \<lparr>is_regular = True, st_mode = create_mode e, content = []\<rparr>)\<rparr>))
         | Some f \<Rightarrow>
             if is_regular f
             then (Return (),
                   log_op (OpenWrite p) (w\<lparr>files := (files w)(p \<mapsto> f\<lparr>content := []\<rparr>)\<rparr>))
             else (Raise IOError, log_op (OpenWrite p) w)))"

text \<open>
  \<^verbatim>\<open>csvfile.write(line)\<close> appends to the open file. A write that fails after a
  successful open (a full disk) is outside the model.
\<close>

definition file_write :: "string \<Rightarrow> string \<Rightarrow> world \<Rightarrow> unit result \<times> world" where
  "file_write p s w =
     (case files w p of
        None \<Rightarrow> (Raise IOError, w)
      | Some f \<Rightarrow> (Return (), w\<lparr>files := (files w)(p \<mapsto> f\<lparr>content := content f @ s\<rparr>)\<rparr>))"

definition writerow :: "string \<Rightarrow> pyval list \<Rightarrow> world \<Rightarrow> unit result \<times> world" where
  "writerow p row w =
     (case csv_record row of Inl x \<Rightarrow> (Raise x, w) | Inr line \<Rightarrow> file_write p line w)"

fun writerows :: "string \<Rightarrow> pyval list list \<Rightarrow> world \<Rightarrow> unit result \<times> world" where
  "writerows p [] w = (Return (), w)"
| "writerows p (row # rows) w =
     (case writerow p row w of
        (Return _, w1) \<Rightarrow> writerows p rows w1
      | (Raise x, w1) \<Rightarrow> (Raise x, w1)
      | (Exit n, w1) \<Rightarrow> (Exit n, w1))"

text \<open>\<^verbatim>\<open>write_csv(rows, filename, header=None)\<close>.\<close>

definition write_csv ::
  "env \<Rightarrow> pyval list list \<Rightarrow> string \<Rightarrow> pyval list option \<Rightarrow> world
     \<Rightarrow> unit result \<times> world" where
  "write_csv e rows filename header w =
     (if header \<noteq> None \<and> 0 < length rows \<and> length (rows ! 0) \<noteq> length (the header)
      then (Raise ValueError, w)
      else
        (case open_wb e filename w of
           (Raise x, w1) \<Rightarrow> (Raise x, w1)
         | (Exit n, w1) \<Rightarrow> (Exit n, w1)
         | (Return _, w1) \<Rightarrow>
             (case (case header of
                      None \<Rightarrow> (Return (), w1)
                    | Some h \<Rightarrow> writerow filename h w1) of
                (Raise x, w2) \<Rightarrow> (Raise x, w2)
              | (Exit n, w2) \<Rightarrow> (Exit n, w2)
              | (Return _, w2) \<Rightarrow> writerows filename rows w2)))"

section \<open>Reference notions for the statements\<close>

text \<open>What a cell unwraps to, and a result set unwrapped cell by cell.\<close>

definition cell_value :: "cell \<Rightarrow> pyval" where
  "cell_value c = (case c of None \<Rightarrow> PNone | Some r \<Rightarrow> val r)"






definition file_content :: "world \<Rightarrow> string \<Rightarrow> string option" where
  "file_content w p = map_option content (files w p)"

text \<open>
  Sample surroundings, for evaluating the model on concrete inputs: the process owns the
  files, so the owner's read bit (\<open>0o400\<close>, 256) and write bit (\<open>0o200\<close>, 128) decide,
  and it may create files in its working directory only.
\<close>

definition sample_gateway :: gateway where
  "sample_gateway = BlitzGateway PNone PNone PNone PNone"

definition sample_world :: world where
  "sample_world =
     \<lparr>files = Map.empty, fs_log = [], stderr = [], gateways = (\<lambda>_. sample_gateway),
      next_ref = 0\<rparr>"

definition sample_rows :: "cell list list" where
  "sample_rows =
     [[Some (RType (PInt 1)), None], [Some (RType (PStr ''x'')), Some (RType (PInt 2))]]"

definition sample_ini :: ini where
  "sample_ini =
     [(''OMEROCredentials'',
       [(''host'', ''omero.example.org''), (''port'', ''4064''),
        (''username'', ''alice''), (''password'', ''secret'')])]"

definition sample_env :: "pyval \<times> pyval \<times> pyval \<times> pyval \<Rightarrow> env" where
  "sample_env session =
     \<lparr>get_current = session,
      expanduser = (\<lambda>p. case p of
          c # rest \<Rightarrow> if c = CHR ''~'' then ''/home/alice'' @ rest else p
        | [] \<Rightarrow> p),
      config_parse = (\<lambda>s. if s = ''valid'' then Inr sample_ini else Inl ParsingError),
      int_of_str = (\<lambda>s. if s = ''4064'' then Some 4064 else None),
      blitz_connect = (\<lambda>g. gw_passwd g = PStr ''secret'' \<or> gw_sUuid g = PStr ''uuid-1''),
      projection = (\<lambda>g q ps. if q = ''select'' then Inr sample_rows else Inl QueryError),
      may_open_read = (\<lambda>fs p. case fs p of None \<Rightarrow> False | Some f \<Rightarrow> st_mode f AND 256 \<noteq> 0),
      may_open_write = (\<lambda>fs p. CHR ''/'' \<notin> set p
          \<and> (case fs p of None \<Rightarrow> True | Some f \<Rightarrow> st_mode f AND 128 \<noteq> 0)),
      create_mode = 420\<rparr>"

definition no_session :: "pyval \<times> pyval \<times> pyval \<times> pyval" where
  "no_session = (PNone, PNone, PNone, PNone)"

definition active_session :: "pyval \<times> pyval \<times> pyval \<times> pyval" where
  "active_session = (PStr ''omero.example.org'', PStr ''alice'', PStr ''uuid-1'', PStr ''4064'')"



text \<open>A world in which the target file already exists, with old bytes in it.\<close>

definition stale_world :: world where
  "stale_world =
     sample_world\<lparr>files :=
       [''out.csv'' \<mapsto> \<lparr>is_regular = True, st_mode = 420, content = ''stale''\<rparr>]\<rparr>"

text \<open>
  The path the constructor looks at: the given one, or the default, after
  \<^verbatim>\<open>os.path.expanduser\<close>.
\<close>

definition config_path :: "env \<Rightarrow> string option \<Rightarrow> string" where
  "config_path e config_file =
     expanduser e (case config_file of None \<Rightarrow> ''~/.omero/config'' | Some p \<Rightarrow> p)"

text \<open>The session id the session store reports; \<^verbatim>\<open>None\<close> when no session is active.\<close>

definition session_uuid :: "env \<Rightarrow> pyval" where
  "session_uuid e = (case get_current e of (h, u, s, p) \<Rightarrow> s)"

text \<open>
  The constructor turns to the configuration file: a path is given, or no session is
  active.
\<close>

definition uses_config_file :: "env \<Rightarrow> string option \<Rightarrow> bool" where
  "uses_config_file e config_file = (config_file \<noteq> None \<or> session_uuid e = PNone)"

text \<open>A world whose only file is the default configuration file of user alice.\<close>

definition config_world :: "nat \<Rightarrow> string \<Rightarrow> world" where
  "config_world mode bytes =
     sample_world\<lparr>files :=
       [''/home/alice/.omero/config'' \<mapsto>
          \<lparr>is_regular = True, st_mode = mode, content = bytes\<rparr>]\<rparr>"

text \<open>The manager built from the sample session.\<close>

definition session_manager :: manager where
  "session_manager =
     \<lparr>conn = None, SUUID = PStr ''uuid-1'', HOST = PStr ''omero.example.org'',
      PORT = PStr ''4064'', USERNAME = PStr ''alice'', PASSWORD = PNone\<rparr>"

text \<open>The manager built from the sample configuration file.\<close>

definition file_manager :: manager where
  "file_manager =
     \<lparr>conn = None, SUUID = PNone, HOST = PStr ''omero.example.org'',
      PORT = PInt 4064, USERNAME = PStr ''alice'', PASSWORD = PStr ''secret''\<rparr>"

section \<open>Properties of the well label\<close>

lemma upper_case_letters:
  "\<forall>n\<in>set [0..<26]. char_of (65 + int n) = ''ABCDEFGHIJKLMNOPQRSTUVWXYZ'' ! n"
  by code_simp

lemma chr_letter:
  assumes "0 \<le> row" and "row \<le> 25"
  shows "chr (65 + row) = Return (''ABCDEFGHIJKLMNOPQRSTUVWXYZ'' ! nat row)"
proof -
  have "nat row \<in> set [0..<26]"
    using assms by auto
  with upper_case_letters
  have "char_of (65 + int (nat row)) = ''ABCDEFGHIJKLMNOPQRSTUVWXYZ'' ! nat row"
    by blast
  moreover have "int (nat row) = row"
    using assms by simp
  ultimately show ?thesis
    using assms by (simp add: chr_def)
qed

lemma digit_val_digit_char: "d < 10 \<Longrightarrow> digit_val (digit_char d) = d"
  by (simp add: digit_char_def digit_val_def)

lemma dec_val_str_nat: "dec_val (str_nat n) = n"
proof (induction n rule: str_nat.induct)
  case (1 n)
  show ?case
  proof (cases "n < 10")
    case True
    then show ?thesis
      by (simp add: str_nat.simps [of n] dec_val_def digit_val_digit_char)
  next
    case False
    with 1 have "dec_val (str_nat (n div 10)) = n div 10"
      by simp
    with False show ?thesis
      by (simp add: str_nat.simps [of n] dec_val_def digit_val_digit_char)
  qed
qed

lemma dec_val_str_int: "0 \<le> i \<Longrightarrow> int (dec_val (str_int i)) = i"
  by (simp add: str_int_def dec_val_str_nat)

text \<open>
  Claim C9. For every row from 0 to 25 and every column, \<open>well_from_row_col\<close> returns
  the upper-case letter at offset \<open>row\<close> from \<open>A\<close> followed by the decimal numeral of
  \<open>column + 1\<close>; in particular \<open>(0,0)\<close> gives \<open>A1\<close>, \<open>(3,2)\<close> gives \<open>D3\<close> and
  \<open>(25,0)\<close> gives \<open>Z1\<close>. The result depends on the two arguments only.
\<close>

theorem well_from_row_col_label:
  "(\<forall>row column. 0 \<le> row \<and> row \<le> 25 \<longrightarrow>
      well_from_row_col row column =
        Return ((''ABCDEFGHIJKLMNOPQRSTUVWXYZ'' ! nat row) # str_int (column + 1)))
   \<and> well_from_row_col 0 0 = Return ''A1''
   \<and> well_from_row_col 3 2 = Return ''D3''
   \<and> well_from_row_col 25 0 = Return ''Z1''"
proof -
  have "well_from_row_col 0 0 = Return ''A1''"
    by code_simp
  moreover have "well_from_row_col 3 2 = Return ''D3''"
    by code_simp
  moreover have "well_from_row_col 25 0 = Return ''Z1''"
    by code_simp
  ultimately show ?thesis
    by (simp add: well_from_row_col_def chr_letter)
qed

theorem well_from_row_col_label_witness:
  "(0::int) \<le> 7 \<and> (7::int) \<le> 25 \<and> well_from_row_col 7 11 = Return ''H12''"
proof -
  have "well_from_row_col 7 11 =
      Return ((''ABCDEFGHIJKLMNOPQRSTUVWXYZ'' ! nat 7) # str_int (11 + 1))"
    using well_from_row_col_label by simp
  moreover have "(''ABCDEFGHIJKLMNOPQRSTUVWXYZ'' ! nat 7) # str_int (11 + 1) = ''H12''"
    by code_simp
  ultimately show ?thesis
    by simp
qed

section \<open>Properties of the file writer\<close>








text \<open>
  Claim C7. When a header is given, there is at least one row, and the header's length
  differs from the first row's, \<open>write_csv\<close> raises \<^verbatim>\<open>ValueError\<close> to its caller (it
  does not leave the process) and the world is unchanged: no file is opened, created or
  modified.
\<close>

theorem write_csv_header_mismatch:
  "length h \<noteq> length r \<Longrightarrow>
   write_csv e (r # rs) filename (Some h) w = (Raise ValueError, w)"
  by (simp add: write_csv_def)

text \<open>The header \<open>[a]\<close> with the row \<open>[1, 2]\<close>: the existing file keeps its bytes.\<close>

theorem write_csv_header_mismatch_witness:
  "length [PStr ''a''] \<noteq> length [PInt 1, PInt 2]
   \<and> write_csv (sample_env no_session) [[PInt 1, PInt 2]] ''out.csv'' (Some [PStr ''a''])
       stale_world = (Raise ValueError, stale_world)"
  using write_csv_header_mismatch [of "[PStr ''a'']" "[PInt 1, PInt 2]"
      "sample_env no_session" "[]" "''out.csv''" stale_world]
  by simp








section \<open>Properties of the constructor\<close>

lemma init_session_branch:
  "\<not> uses_config_file e config_file \<Longrightarrow>
   init e config_file w = (Return (session_step e None new_manager), w)"
  by (cases "get_current e")
     (auto simp add: init_def uses_config_file_def session_uuid_def session_step_def Let_def)

lemma init_config_branch:
  "uses_config_file e config_file \<Longrightarrow>
   init e config_file w =
     from_config_file e (config_path e config_file)
       (session_step e config_file new_manager) w"
  by (cases "get_current e"; cases config_file)
     (auto simp add: init_def uses_config_file_def session_uuid_def session_step_def Let_def
        config_path_def)

lemma sample_config_path:
  "config_path (sample_env session) None = ''/home/alice/.omero/config''"
  by (simp add: config_path_def sample_env_def)

text \<open>
  Claim C1. When no configuration path is given and the session store reports an
  active session (a session id that is not \<^verbatim>\<open>None\<close>), the constructor returns a
  manager whose \<open>HOST\<close>, \<open>USERNAME\<close>, \<open>SUUID\<close> and \<open>PORT\<close> are the four values of the
  session store, whose \<open>PASSWORD\<close> is \<^verbatim>\<open>None\<close>, and the world is unchanged: the log
  of file-system calls gains no entry, so the configuration file is neither looked for
  nor read, whatever the file system holds.
\<close>

theorem init_active_session:
  assumes "get_current e = (h, u, s, p)" and "s \<noteq> PNone"
  shows "init e None w =
    (Return \<lparr>conn = None, SUUID = s, HOST = h, PORT = p, USERNAME = u, PASSWORD = PNone\<rparr>, w)"
  using assms by (simp add: init_def session_step_def new_manager_def Let_def)

text \<open>
  An active session, with a world-readable default configuration file that does not
  parse: the manager comes from the session and the file is not touched.
\<close>

theorem init_active_session_witness:
  "get_current (sample_env active_session) =
     (PStr ''omero.example.org'', PStr ''alice'', PStr ''uuid-1'', PStr ''4064'')
   \<and> PStr ''uuid-1'' \<noteq> PNone
   \<and> file_content (config_world 420 ''not a configuration'') ''/home/alice/.omero/config''
       = Some ''not a configuration''
   \<and> init (sample_env active_session) None (config_world 420 ''not a configuration'') =
       (Return session_manager, config_world 420 ''not a configuration'')"
proof -
  have g: "get_current (sample_env active_session) =
     (PStr ''omero.example.org'', PStr ''alice'', PStr ''uuid-1'', PStr ''4064'')"
    by (simp add: sample_env_def active_session_def)
  have n: "PStr ''uuid-1'' \<noteq> PNone"
    by simp
  have c: "file_content (config_world 420 ''not a configuration'') ''/home/alice/.omero/config''
       = Some ''not a configuration''"
    by (simp add: file_content_def config_world_def)
  from init_active_session [OF g n, of "config_world 420 ''not a configuration''"] g c
  show ?thesis
    by (simp add: session_manager_def)
qed

text \<open>
  Claim C2. When the constructor turns to the configuration file and that file is a
  regular file whose mode has a group or other bit set (\<open>mode AND 0o77\<close> is not zero),
  the constructor appends to the error stream the text saying that the file holds
  private credentials and must not be accessible by other users, followed by the command
  to run, \<^verbatim>\<open>chmod 600\<close> with the file's path, and exits with status 1. No manager is
  returned, and the file is only tested and stat-ed, never read, so its contents play no
  part.
\<close>

theorem init_insecure_permissions:
  assumes "uses_config_file e config_file"
    and "files w (config_path e config_file) = Some f"
    and "is_regular f"
    and "st_mode f AND 63 \<noteq> 0"
  shows "init e config_file w =
    (Exit 1,
     w\<lparr>fs_log := fs_log w @ [Exists (config_path e config_file),
          IsFile (config_path e config_file), Stat (config_path e config_file)],
       stderr := stderr w
           @ ''Configuration file contains private credentials and must not be accessible by other users. Please run:''
           @ [CHR 0x0A, CHR 0x0A] @ ''    chmod 600 '' @ config_path e config_file
           @ [CHR 0x0A, CHR 0x0A]\<rparr>)"
  using assms
  by (simp add: init_config_branch from_config_file_def exists_and_isfile_def
      os_path_exists_def os_path_isfile_def os_stat_mode_def log_op_def write_stderr_def
      permission_message_def)

text \<open>
  A configuration file that would parse, with mode \<open>0o644\<close> (420).
\<close>

theorem init_insecure_permissions_witness:
  "uses_config_file (sample_env no_session) None
   \<and> files (config_world 420 ''valid'') (config_path (sample_env no_session) None)
       = Some \<lparr>is_regular = True, st_mode = 420, content = ''valid''\<rparr>
   \<and> (420 :: nat) AND 63 \<noteq> 0
   \<and> fst (init (sample_env no_session) None (config_world 420 ''valid'')) = Exit 1
   \<and> stderr (snd (init (sample_env no_session) None (config_world 420 ''valid'')))
       = ''Configuration file contains private credentials and must not be accessible by other users. Please run:''
           @ [CHR 0x0A, CHR 0x0A] @ ''    chmod 600 /home/alice/.omero/config''
           @ [CHR 0x0A, CHR 0x0A]"
proof -
  have u: "uses_config_file (sample_env no_session) None"
    by (simp add: uses_config_file_def session_uuid_def sample_env_def no_session_def)
  have f: "files (config_world 420 ''valid'') (config_path (sample_env no_session) None)
       = Some \<lparr>is_regular = True, st_mode = 420, content = ''valid''\<rparr>"
    by (simp add: sample_config_path config_world_def)
  have r: "is_regular \<lparr>is_regular = True, st_mode = 420, content = ''valid''\<rparr>"
    by simp
  have b: "(420 :: nat) AND 63 \<noteq> 0"
    by code_simp
  then have b': "st_mode \<lparr>is_regular = True, st_mode = 420, content = ''valid''\<rparr> AND 63 \<noteq> 0"
    by simp
  from init_insecure_permissions [OF u f r b'] u f b show ?thesis
    by (simp add: sample_config_path config_world_def sample_world_def)
qed

text \<open>
  Claim C6. When the constructor turns to the configuration file (a path is given, or
  none is given and no session is active) and nothing exists at the expanded path, it
  appends to the error stream the line saying that there is no active session and that
  the configuration file at that path does not exist, and exits with status 1 after the
  one existence test.
\<close>

theorem init_missing_config:
  assumes "uses_config_file e config_file"
    and "files w (config_path e config_file) = None"
  shows "init e config_file w =
    (Exit 1,
     w\<lparr>fs_log := fs_log w @ [Exists (config_path e config_file)],
       stderr := stderr w
           @ ''No active OMERO CLI session and configuration file ''
           @ config_path e config_file @ '' does not exist'' @ [CHR 0x0A]\<rparr>)"
  using assms
  by (simp add: init_config_branch from_config_file_def exists_and_isfile_def
      os_path_exists_def log_op_def write_stderr_def missing_message_def)

text \<open>
  An explicit path to a file that does not exist; the active session is not consulted.
\<close>

theorem init_missing_config_witness:
  "uses_config_file (sample_env active_session) (Some ''~/missing.ini'')
   \<and> files sample_world (config_path (sample_env active_session) (Some ''~/missing.ini'')) = None
   \<and> fst (init (sample_env active_session) (Some ''~/missing.ini'') sample_world) = Exit 1
   \<and> stderr (snd (init (sample_env active_session) (Some ''~/missing.ini'') sample_world))
       = ''No active OMERO CLI session and configuration file /home/alice/missing.ini does not exist''
           @ [CHR 0x0A]"
proof -
  have u: "uses_config_file (sample_env active_session) (Some ''~/missing.ini'')"
    by (simp add: uses_config_file_def)
  have p: "config_path (sample_env active_session) (Some ''~/missing.ini'')
      = ''/home/alice/missing.ini''"
    by (simp add: config_path_def sample_env_def)
  have f: "files sample_world (config_path (sample_env active_session) (Some ''~/missing.ini''))
      = None"
    by (simp add: sample_world_def)
  from init_missing_config [OF u f] u f show ?thesis
    by (simp add: p sample_world_def)
qed

lemma read_credentials_Return:
  assumes "read_credentials e p m w = (Return m1, w1)"
  shows "\<exists>h n u pw. m1 = m\<lparr>HOST := PStr h, PORT := PInt n, USERNAME := PStr u,
            PASSWORD := PStr pw\<rparr>"
  using assms
  by (auto simp add: read_credentials_def split: prod.splits result.splits)

lemma from_config_file_Return:
  assumes "from_config_file e p m w = (Return m1, w1)"
  shows "\<exists>h n u pw. m1 = m\<lparr>HOST := PStr h, PORT := PInt n, USERNAME := PStr u,
            PASSWORD := PStr pw\<rparr>"
proof -
  from assms obtain w2 where "read_credentials e p m w2 = (Return m1, w1)"
    by (auto simp add: from_config_file_def split: prod.splits result.splits bool.splits
        if_splits)
  then show ?thesis
    by (rule read_credentials_Return)
qed

lemma init_credentials:
  assumes "init e config_file w = (Return m, w1)"
  shows "conn m = None
    \<and> ((USERNAME m \<noteq> PNone \<and> PASSWORD m \<noteq> PNone \<and> SUUID m = PNone)
       \<or> (PASSWORD m = PNone \<and> SUUID m \<noteq> PNone))"
proof (cases "uses_config_file e config_file")
  case True
  with assms have "from_config_file e (config_path e config_file)
       (session_step e config_file new_manager) w = (Return m, w1)"
    by (simp add: init_config_branch)
  then obtain h n u pw where
    m: "m = (session_step e config_file new_manager)\<lparr>HOST := PStr h, PORT := PInt n,
          USERNAME := PStr u, PASSWORD := PStr pw\<rparr>"
    using from_config_file_Return by blast
  from True have "SUUID (session_step e config_file new_manager) = PNone"
    by (cases "get_current e"; cases config_file)
       (auto simp add: uses_config_file_def session_uuid_def session_step_def new_manager_def)
  moreover have "conn (session_step e config_file new_manager) = None"
    by (cases "get_current e"; cases config_file)
       (auto simp add: session_step_def new_manager_def)
  ultimately show ?thesis
    using m by simp
next
  case False
  with assms have m: "m = session_step e None new_manager"
    by (simp add: init_session_branch)
  from False have "config_file = None" and "session_uuid e \<noteq> PNone"
    by (simp_all add: uses_config_file_def)
  with m show ?thesis
    by (cases "get_current e")
       (auto simp add: session_uuid_def session_step_def new_manager_def)
qed

section \<open>Properties of connect and disconnect\<close>

lemma connect_existing: "conn m = Some h \<Longrightarrow> connect e m w = (Return h, m, w)"
  by (simp add: connect_def)

lemma connect_returns_handle:
  "connect e m w = (Return h, m1, w1) \<Longrightarrow> conn m1 = Some h"
  by (auto simp add: connect_def Let_def split: option.splits prod.splits if_splits)

lemma sample_connect_session:
  "connect (sample_env active_session) session_manager sample_world =
     (Return 0, session_manager\<lparr>conn := Some 0\<rparr>,
      sample_world\<lparr>gateways := (gateways sample_world)(0 :=
          (BlitzGateway (PStr ''alice'') PNone (PStr ''omero.example.org'') (PStr ''4064''))
            \<lparr>gw_sUuid := PStr ''uuid-1'', gw_state := Connected\<rparr>),
        next_ref := Suc 0\<rparr>)"
  by (simp add: connect_def gateway_connect_def session_manager_def sample_world_def
      sample_env_def BlitzGateway_def Let_def)

text \<open>
  Claim C4. If the manager already has a handle, \<open>connect\<close> returns that handle and
  leaves manager and world unchanged; hence after a \<open>connect\<close> that returned a handle, a
  second \<open>connect\<close> returns the same handle and changes nothing. If the manager has no
  handle, \<open>disconnect\<close> changes nothing; hence a second \<open>disconnect\<close> in succession
  changes nothing.
\<close>

theorem connect_disconnect_idempotent:
  "(\<forall>e m w h. conn m = Some h \<longrightarrow> connect e m w = (Return h, m, w))
   \<and> (\<forall>e m w h m1 w1. connect e m w = (Return h, m1, w1) \<longrightarrow>
         connect e m1 w1 = (Return h, m1, w1))
   \<and> (\<forall>m w. conn m = None \<longrightarrow> disconnect m w = (m, w))
   \<and> (\<forall>m w. disconnect (fst (disconnect m w)) (snd (disconnect m w)) = disconnect m w)"
proof (intro conjI allI impI)
  fix e :: env and m :: manager and w :: world and h :: nat
  assume "conn m = Some h"
  then show "connect e m w = (Return h, m, w)"
    by (rule connect_existing)
next
  fix e :: env and m m1 :: manager and w w1 :: world and h :: nat
  assume "connect e m w = (Return h, m1, w1)"
  then have "conn m1 = Some h"
    by (rule connect_returns_handle)
  then show "connect e m1 w1 = (Return h, m1, w1)"
    by (rule connect_existing)
next
  fix m :: manager and w :: world
  assume "conn m = None"
  then show "disconnect m w = (m, w)"
    by (simp add: disconnect_def)
next
  fix m :: manager and w :: world
  show "disconnect (fst (disconnect m w)) (snd (disconnect m w)) = disconnect m w"
    by (cases "conn m") (simp_all add: disconnect_def)
qed

text \<open>
  Two connects in a row on the manager of the sample session, and disconnects with and
  without a handle.
\<close>

theorem connect_disconnect_idempotent_witness:
  "fst (connect (sample_env active_session) session_manager sample_world) = Return 0
   \<and> fst (connect (sample_env active_session)
          (fst (snd (connect (sample_env active_session) session_manager sample_world)))
          (snd (snd (connect (sample_env active_session) session_manager sample_world))))
       = Return 0
   \<and> conn session_manager = None
   \<and> disconnect session_manager sample_world = (session_manager, sample_world)
   \<and> disconnect (fst (disconnect (session_manager\<lparr>conn := Some 0\<rparr>) sample_world))
        (snd (disconnect (session_manager\<lparr>conn := Some 0\<rparr>) sample_world))
       = disconnect (session_manager\<lparr>conn := Some 0\<rparr>) sample_world"
proof -
  let ?e = "sample_env active_session"
  obtain m1 w1 where c: "connect ?e session_manager sample_world = (Return 0, m1, w1)"
    using sample_connect_session by blast
  have n: "conn session_manager = None"
    by (simp add: session_manager_def)
  from connect_disconnect_idempotent have
    "connect ?e m1 w1 = (Return 0, m1, w1)"
    and "disconnect session_manager sample_world = (session_manager, sample_world)"
    and "disconnect (fst (disconnect (session_manager\<lparr>conn := Some 0\<rparr>) sample_world))
        (snd (disconnect (session_manager\<lparr>conn := Some 0\<rparr>) sample_world))
       = disconnect (session_manager\<lparr>conn := Some 0\<rparr>) sample_world"
    using c n by blast+
  with c n show ?thesis
    by simp
qed

lemma connect_new_gateway:
  assumes "conn m = None"
  shows "gateways (snd (snd (connect e m w))) (next_ref w) =
     (BlitzGateway (USERNAME m) (PASSWORD m) (HOST m) (PORT m))
       \<lparr>gw_sUuid := SUUID m,
        gw_state := (if blitz_connect e
            ((BlitzGateway (USERNAME m) (PASSWORD m) (HOST m) (PORT m))\<lparr>gw_sUuid := SUUID m\<rparr>)
          then Connected else Refused)\<rparr>"
  using assms
  by (simp add: connect_def gateway_connect_def Let_def write_stderr_def)

text \<open>
  Claim C5. On a manager returned by the constructor, \<open>connect\<close> constructs a new
  handle (the manager has none), registers it as the manager's handle, and supplies
  exactly one of password and session id to it. When user name and password are
  present, the gateway gets that pair and the session id passed to its connect call is
  \<^verbatim>\<open>None\<close>; otherwise the password passed is \<^verbatim>\<open>None\<close> and the connect call gets the
  session id, which is then present.
\<close>

theorem connect_credentials:
  assumes "init e0 config_file w0 = (Return m, w1)"
  shows "conn m = None
    \<and> conn (fst (snd (connect e m w))) = Some (next_ref w)
    \<and> (if USERNAME m \<noteq> PNone \<and> PASSWORD m \<noteq> PNone
        then gw_username (gateways (snd (snd (connect e m w))) (next_ref w)) = USERNAME m
          \<and> gw_passwd (gateways (snd (snd (connect e m w))) (next_ref w)) = PASSWORD m
          \<and> gw_sUuid (gateways (snd (snd (connect e m w))) (next_ref w)) = PNone
        else gw_passwd (gateways (snd (snd (connect e m w))) (next_ref w)) = PNone
          \<and> gw_sUuid (gateways (snd (snd (connect e m w))) (next_ref w)) = SUUID m
          \<and> SUUID m \<noteq> PNone)
    \<and> ((gw_passwd (gateways (snd (snd (connect e m w))) (next_ref w)) = PNone)
        = (gw_sUuid (gateways (snd (snd (connect e m w))) (next_ref w)) \<noteq> PNone))"
proof -
  from assms have none: "conn m = None"
    and mode: "(USERNAME m \<noteq> PNone \<and> PASSWORD m \<noteq> PNone \<and> SUUID m = PNone)
       \<or> (PASSWORD m = PNone \<and> SUUID m \<noteq> PNone)"
    using init_credentials by blast+
  have handle: "conn (fst (snd (connect e m w))) = Some (next_ref w)"
    using none
    by (simp add: connect_def gateway_connect_def Let_def split: prod.splits)
  have g: "gw_username (gateways (snd (snd (connect e m w))) (next_ref w)) = USERNAME m"
    "gw_passwd (gateways (snd (snd (connect e m w))) (next_ref w)) = PASSWORD m"
    "gw_sUuid (gateways (snd (snd (connect e m w))) (next_ref w)) = SUUID m"
    using none by (simp_all add: connect_new_gateway BlitzGateway_def)
  from mode show ?thesis
    unfolding g using none handle by auto
qed

text \<open>
  Both ways of building a manager: from the sample session, the gateway gets the session
  id and no password; from the sample configuration file (mode \<open>0o600\<close>, 384) with no
  session, it gets user name and password and no session id.
\<close>

theorem connect_credentials_witness:
  "init (sample_env active_session) None sample_world = (Return session_manager, sample_world)
   \<and> conn session_manager = None
   \<and> gw_passwd (gateways (snd (snd (connect (sample_env active_session) session_manager
        sample_world))) (next_ref sample_world)) = PNone
   \<and> gw_sUuid (gateways (snd (snd (connect (sample_env active_session) session_manager
        sample_world))) (next_ref sample_world)) = PStr ''uuid-1''
   \<and> fst (init (sample_env no_session) None (config_world 384 ''valid'')) = Return file_manager
   \<and> gw_username (gateways (snd (snd (connect (sample_env no_session) file_manager
        sample_world))) (next_ref sample_world)) = PStr ''alice''
   \<and> gw_passwd (gateways (snd (snd (connect (sample_env no_session) file_manager
        sample_world))) (next_ref sample_world)) = PStr ''secret''
   \<and> gw_sUuid (gateways (snd (snd (connect (sample_env no_session) file_manager
        sample_world))) (next_ref sample_world)) = PNone"
proof -
  have i: "init (sample_env active_session) None sample_world
      = (Return session_manager, sample_world)"
    by (simp add: init_def session_step_def new_manager_def Let_def sample_env_def
        active_session_def session_manager_def)
  have j: "fst (init (sample_env no_session) None (config_world 384 ''valid''))
      = Return file_manager"
    by code_simp
  then obtain w1 where j': "init (sample_env no_session) None (config_world 384 ''valid'')
      = (Return file_manager, w1)"
    by (metis prod.collapse)
  from connect_credentials [OF i, of "sample_env active_session" sample_world]
    connect_credentials [OF j', of "sample_env no_session" sample_world] i j
  show ?thesis
    by (simp add: session_manager_def file_manager_def)
qed

section \<open>Properties of the query\<close>

lemma unwrap_row_map: "unwrap_row acc cs = acc @ map cell_value cs"
  by (induction cs arbitrary: acc) (simp_all add: cell_value_def split: option.splits)

lemma unwrap_rows_map: "unwrap_rows acc rows = acc @ map (map cell_value) rows"
  by (induction rows arbitrary: acc) (simp_all add: unwrap_row_map)

lemma on_demand_connect:
  assumes "connect e m w = (Return h, m1, w1)"
  shows "(if conn m = None then connect e m w else (Return 0, m, w)) = (Return (if conn m = None then h else 0), m1, w1)"
  using assms by (cases "conn m") (simp_all add: connect_def)

text \<open>
  Claim C3. When a handle is available (the manager has one, or connecting on demand
  succeeds) and the query service returns a result set, \<open>hql_query\<close> returns that
  result set with every cell unwrapped in place: a null cell becomes \<^verbatim>\<open>None\<close>, any
  other cell its \<^verbatim>\<open>val\<close>, rows and columns in their order.
\<close>

theorem hql_query_unwraps:
  assumes "connect e m w = (Return h, m1, w1)"
    and "projection e (setOmeroGroup (- 1) (gateways w1 h)) query
           (case params of None \<Rightarrow> [] | Some given \<Rightarrow> given) = Inr rows"
  shows "fst (hql_query e m query params w) = Return (map (map cell_value) rows)"
proof -
  have "conn m1 = Some h"
    using assms(1) by (rule connect_returns_handle)
  with assms(2) on_demand_connect [OF assms(1)] show ?thesis
    by (simp add: hql_query_def unwrap_rows_map Let_def)
qed

text \<open>
  The result set \<open>[[wrap 1, null], [wrap x, wrap 2]]\<close> unwraps to
  \<open>[[1, None], [x, 2]]\<close>, on a manager that connects on demand.
\<close>

theorem hql_query_unwraps_witness:
  "fst (connect (sample_env active_session) session_manager sample_world) = Return 0
   \<and> projection (sample_env active_session)
        (setOmeroGroup (- 1)
           (gateways (snd (snd (connect (sample_env active_session) session_manager
              sample_world))) 0))
        ''select'' [] =
       Inr [[Some (RType (PInt 1)), None], [Some (RType (PStr ''x'')), Some (RType (PInt 2))]]
   \<and> fst (hql_query (sample_env active_session) session_manager ''select'' None sample_world)
       = Return [[PInt 1, PNone], [PStr ''x'', PInt 2]]"
proof -
  let ?e = "sample_env active_session"
  obtain m1 w1 where c: "connect ?e session_manager sample_world = (Return 0, m1, w1)"
    using sample_connect_session by blast
  have p: "projection ?e (setOmeroGroup (- 1) (gateways w1 0)) ''select''
      (case None of None \<Rightarrow> [] | Some given \<Rightarrow> given) =
      Inr [[Some (RType (PInt 1)), None], [Some (RType (PStr ''x'')), Some (RType (PInt 2))]]"
    by (simp add: sample_env_def sample_rows_def)
  from hql_query_unwraps [OF c p] c p show ?thesis
    by (simp add: cell_value_def)
qed

end
